theory Spec2Isabelle
  imports
    Complex_Main
    "HOL-Library.Word"
    "HOL-Library.Char_ord"
    "HOL-Library.List_Lexorder"
    "HOL-Library.Multiset"
begin

unbundle bit_operations_syntax

chapter \<open>NearYou: caches, message generator, query routing and the proximity gate\<close>

section \<open>Python strings\<close>

text \<open>
  A Python \<open>str\<close> is modelled as a \<^typ>\<open>string\<close> whose characters are the code points
  0..255; \<open>bytes\<close> are a \<^typ>\<open>string\<close> as well, one character per byte.  On this range
  \<open>str.lower\<close> moves exactly A..Z and the Latin-1 capitals (192..222 except 215) up by 32,
  and \<open>str.isspace\<close> holds exactly for 9..13, 28..32, 133 and 160.  Strings are compared
  by code point, as Python does.
\<close>

definition isupper_char :: "char \<Rightarrow> bool" where
  "isupper_char c =
     (let n = (of_char c :: nat)
      in (65 \<le> n \<and> n \<le> 90) \<or> (192 \<le> n \<and> n \<le> 222 \<and> n \<noteq> 215))"

definition lower_char :: "char \<Rightarrow> char" where
  "lower_char c = (if isupper_char c then char_of ((of_char c :: nat) + 32) else c)"

definition str_lower :: "string \<Rightarrow> string" where
  "str_lower s = map lower_char s"

definition isspace :: "char \<Rightarrow> bool" where
  "isspace c =
     (let n = (of_char c :: nat)
      in (9 \<le> n \<and> n \<le> 13) \<or> (28 \<le> n \<and> n \<le> 32) \<or> n = 133 \<or> n = 160)"

definition str_strip :: "string \<Rightarrow> string" where
  "str_strip s = rev (dropWhile isspace (rev (dropWhile isspace s)))"

text \<open>\<open>s.split(sep)\<close> for a one-character separator: never the empty list.\<close>

fun str_split :: "char \<Rightarrow> string \<Rightarrow> string list" where
  "str_split sep [] = [[]]"
| "str_split sep (c # cs) =
     (if c = sep then [] # str_split sep cs
      else (case str_split sep cs of
              w # ws \<Rightarrow> (c # w) # ws
            | [] \<Rightarrow> [[c]]))"

fun str_join :: "string \<Rightarrow> string list \<Rightarrow> string" where
  "str_join sep [] = []"
| "str_join sep [x] = x"
| "str_join sep (x # y # ys) = x @ sep @ str_join sep (y # ys)"

definition digit_char :: "nat \<Rightarrow> char" where
  "digit_char d = char_of (48 + d)"

fun str_nat :: "nat \<Rightarrow> string" where
  "str_nat n = (if n < 10 then [digit_char n] else str_nat (n div 10) @ [digit_char (n mod 10)])"

declare str_nat.simps [simp del]

text \<open>\<open>str(i)\<close>, and an integer inside an f-string.\<close>

definition str_int :: "int \<Rightarrow> string" where
  "str_int i = (if i < 0 then CHR ''-'' # str_nat (nat (- i)) else str_nat (nat i))"

text \<open>
  \<open>s.encode()\<close>: UTF-8.  A code point below 128 is one byte, one in 128..255 is two.
\<close>

definition encode_char :: "char \<Rightarrow> string" where
  "encode_char c =
     (let n = (of_char c :: nat)
      in if n < 128 then [c] else [char_of (192 + n div 64), char_of (128 + n mod 64)])"

definition encode_utf8 :: "string \<Rightarrow> string" where
  "encode_utf8 s = concat (map encode_char s)"

section \<open>hashlib.md5\<close>

text \<open>
  The digest of the standard library, after RFC 1321: the message is padded to a multiple
  of 64 bytes, each block is 16 little-endian 32-bit words, and 64 steps per block update
  four 32-bit registers with wrap-around addition.
\<close>

definition md5_s :: "nat list" where
  "md5_s =
     [7, 12, 17, 22, 7, 12, 17, 22, 7, 12, 17, 22, 7, 12, 17, 22,
      5, 9, 14, 20, 5, 9, 14, 20, 5, 9, 14, 20, 5, 9, 14, 20,
      4, 11, 16, 23, 4, 11, 16, 23, 4, 11, 16, 23, 4, 11, 16, 23,
      6, 10, 15, 21, 6, 10, 15, 21, 6, 10, 15, 21, 6, 10, 15, 21]"

definition md5_K :: "32 word list" where
  "md5_K =
     [0xd76aa478, 0xe8c7b756, 0x242070db, 0xc1bdceee, 0xf57c0faf, 0x4787c62a, 0xa8304613,
      0xfd469501, 0x698098d8, 0x8b44f7af, 0xffff5bb1, 0x895cd7be, 0x6b901122, 0xfd987193,
      0xa679438e, 0x49b40821, 0xf61e2562, 0xc040b340, 0x265e5a51, 0xe9b6c7aa, 0xd62f105d,
      0x02441453, 0xd8a1e681, 0xe7d3fbc8, 0x21e1cde6, 0xc33707d6, 0xf4d50d87, 0x455a14ed,
      0xa9e3e905, 0xfcefa3f8, 0x676f02d9, 0x8d2a4c8a, 0xfffa3942, 0x8771f681, 0x6d9d6122,
      0xfde5380c, 0xa4beea44, 0x4bdecfa9, 0xf6bb4b60, 0xbebfbc70, 0x289b7ec6, 0xeaa127fa,
      0xd4ef3085, 0x04881d05, 0xd9d4d039, 0xe6db99e5, 0x1fa27cf8, 0xc4ac5665, 0xf4292244,
      0x432aff97, 0xab9423a7, 0xfc93a039, 0x655b59c3, 0x8f0ccc92, 0xffeff47d, 0x85845dd1,
      0x6fa87e4f, 0xfe2ce6e0, 0xa3014314, 0x4e0811a1, 0xf7537e82, 0xbd3af235, 0x2ad7d2bb,
      0xeb86d391]"

type_synonym md5_regs = "32 word \<times> 32 word \<times> 32 word \<times> 32 word"

definition md5_pad :: "8 word list \<Rightarrow> 8 word list" where
  "md5_pad bs =
     (let n = length bs
      in bs @ [0x80] @ replicate ((119 - n mod 64) mod 64) 0
            @ map (\<lambda>i. ucast (drop_bit (8 * i) (word_of_nat (8 * n) :: 64 word))) [0..<8])"

fun md5_chunks :: "nat \<Rightarrow> 8 word list \<Rightarrow> 8 word list list" where
  "md5_chunks 0 bs = []"
| "md5_chunks (Suc k) bs = take 64 bs # md5_chunks k (drop 64 bs)"

definition md5_word :: "8 word list \<Rightarrow> nat \<Rightarrow> 32 word" where
  "md5_word chunk g =
     ucast (chunk ! (4 * g)) OR push_bit 8 (ucast (chunk ! (4 * g + 1)))
       OR push_bit 16 (ucast (chunk ! (4 * g + 2))) OR push_bit 24 (ucast (chunk ! (4 * g + 3)))"

definition md5_step :: "8 word list \<Rightarrow> md5_regs \<Rightarrow> nat \<Rightarrow> md5_regs" where
  "md5_step chunk r i =
     (case r of (A, B, C, D) \<Rightarrow>
        (let (F, g) =
               (if i < 16 then ((B AND C) OR (NOT B AND D), i)
                else if i < 32 then ((D AND B) OR (NOT D AND C), (5 * i + 1) mod 16)
                else if i < 48 then (B XOR C XOR D, (3 * i + 5) mod 16)
                else (C XOR (B OR NOT D), (7 * i) mod 16));
             F' = F + A + md5_K ! i + md5_word chunk g
         in (D, B + word_rotl (md5_s ! i) F', B, C)))"

definition md5_block :: "md5_regs \<Rightarrow> 8 word list \<Rightarrow> md5_regs" where
  "md5_block r chunk =
     (case r of (a0, b0, c0, d0) \<Rightarrow>
        (case foldl (md5_step chunk) r [0..<64] of
           (A, B, C, D) \<Rightarrow> (a0 + A, b0 + B, c0 + C, d0 + D)))"

definition hex_char :: "nat \<Rightarrow> char" where
  "hex_char d = (if d < 10 then char_of (48 + d) else char_of (87 + d))"

definition hex_byte :: "8 word \<Rightarrow> string" where
  "hex_byte b = [hex_char (unat (drop_bit 4 b)), hex_char (unat (b AND 0x0F))]"

definition hex_word_le :: "32 word \<Rightarrow> string" where
  "hex_word_le w = concat (map (\<lambda>i. hex_byte (ucast (drop_bit (8 * i) w))) [0..<4])"

text \<open>\<open>hashlib.md5(bs).hexdigest()\<close>: 32 lower-case hexadecimal digits.\<close>

definition md5_hexdigest :: "string \<Rightarrow> string" where
  "md5_hexdigest bs =
     (let padded = md5_pad (map of_char bs);
          regs = foldl md5_block (0x67452301, 0xefcdab89, 0x98badcfe, 0x10325476)
                   (md5_chunks (length padded div 64) padded)
      in case regs of (a, b, c, d) \<Rightarrow>
           hex_word_le a @ hex_word_le b @ hex_word_le c @ hex_word_le d)"

text \<open>\<open>bs.decode('utf-8')\<close>, for the byte sequences that denote code points below 256.\<close>

datatype pyerr =
    ConnectionError | ResponseError | JSONDecodeError | UnicodeDecodeError
  | TypeError | ValueError | KeyError | ValidationError | RuntimeError | RecursionError
  | NotModelled

fun decode_utf8 :: "string \<Rightarrow> pyerr + string" where
  "decode_utf8 [] = Inr []"
| "decode_utf8 [b] = (if (of_char b :: nat) < 128 then Inr [b] else Inl UnicodeDecodeError)"
| "decode_utf8 (b # b' # bs) =
     (let n = (of_char b :: nat); m = (of_char b' :: nat)
      in if n < 128 then
           (case decode_utf8 (b' # bs) of Inl e \<Rightarrow> Inl e | Inr s \<Rightarrow> Inr (b # s))
         else if (n = 194 \<or> n = 195) \<and> 128 \<le> m \<and> m < 192 then
           (case decode_utf8 bs of
              Inl e \<Rightarrow> Inl e
            | Inr s \<Rightarrow> Inr (char_of ((n - 192) * 64 + (m - 128)) # s))
         else Inl UnicodeDecodeError)"

section \<open>Python values and exceptions\<close>

text \<open>
  The values that reach a cache: \<open>None\<close>, booleans, integers, floats (as reals), \<open>str\<close>,
  \<open>bytes\<close>, lists, dicts with string keys (in insertion order) and \<open>datetime\<close> objects
  (microseconds).  A function that can raise returns \<open>pyerr + 'a\<close>, \<open>Inl\<close> the exception.
\<close>

datatype pyval =
    PNone
  | PBool bool
  | PInt int
  | PFloat real
  | PStr string
  | PBytes string
  | PList "pyval list"
  | PDict "(string \<times> pyval) list"
  | PDatetime int

text \<open>The truth value of an object in \<open>if x:\<close>.\<close>

fun truthy :: "pyval \<Rightarrow> bool" where
  "truthy PNone = False"
| "truthy (PBool b) = b"
| "truthy (PInt i) = (i \<noteq> 0)"
| "truthy (PFloat r) = (r \<noteq> 0)"
| "truthy (PStr s) = (s \<noteq> [])"
| "truthy (PBytes s) = (s \<noteq> [])"
| "truthy (PList xs) = (xs \<noteq> [])"
| "truthy (PDict kvs) = (kvs \<noteq> [])"
| "truthy (PDatetime t) = True"

text \<open>\<open>try: body except Exception as e: handler\<close>.\<close>

definition try_except :: "pyerr + 'a \<Rightarrow> (pyerr \<Rightarrow> pyerr + 'a) \<Rightarrow> pyerr + 'a" where
  "try_except body handler = (case body of Inl e \<Rightarrow> handler e | Inr v \<Rightarrow> Inr v)"

section \<open>src/cache/memory\_cache.py\<close>

text \<open>
  \<open>self.cache\<close> maps a key to \<open>(value, expire_time)\<close>, \<open>expire_time\<close> being \<open>None\<close> or
  a clock reading.  Every method takes the reading of \<open>time.time()\<close> as \<open>now\<close> and returns
  the cache it leaves behind.
\<close>

record memory_cache =
  mem_cache :: "string \<rightharpoonup> (pyval \<times> real option)"
  mem_default_ttl :: "int option"

definition expired :: "real \<Rightarrow> real option \<Rightarrow> bool" where
  "expired now expire_time = (case expire_time of None \<Rightarrow> False | Some e \<Rightarrow> now > e)"

definition memory_get :: "real \<Rightarrow> string \<Rightarrow> memory_cache \<Rightarrow> pyval \<times> memory_cache" where
  "memory_get now key mc =
     (case mem_cache mc key of
        None \<Rightarrow> (PNone, mc)
      | Some (val, expire_time) \<Rightarrow>
          if expired now expire_time
          then (PNone, mc\<lparr>mem_cache := (mem_cache mc)(key := None)\<rparr>)
          else (val, mc))"

definition memory_set ::
  "real \<Rightarrow> string \<Rightarrow> pyval \<Rightarrow> int option \<Rightarrow> memory_cache \<Rightarrow> bool \<times> memory_cache" where
  "memory_set now key val ttl mc =
     (let ttl' = (case ttl of Some t \<Rightarrow> Some t | None \<Rightarrow> mem_default_ttl mc);
          expire_time = (case ttl' of None \<Rightarrow> None | Some t \<Rightarrow> Some (now + real_of_int t))
      in (True, mc\<lparr>mem_cache := (mem_cache mc)(key \<mapsto> (val, expire_time))\<rparr>))"








section \<open>src/cache/redis\_cache.py\<close>

text \<open>
  The Redis server behind the client: each key holds bytes and the clock reading at which
  it expires.  A command raises \<open>ConnectionError\<close> while the server is unreachable, and
  \<open>SETEX\<close> refuses a time to live that is not positive.
\<close>

record redis_server =
  rs_store :: "string \<rightharpoonup> (string \<times> real)"
  rs_up :: bool

definition client_get :: "real \<Rightarrow> string \<Rightarrow> redis_server \<Rightarrow> pyerr + string option" where
  "client_get now key srv =
     (if \<not> rs_up srv then Inl ConnectionError
      else (case rs_store srv key of
              None \<Rightarrow> Inr None
            | Some (bs, expire_at) \<Rightarrow> if now < expire_at then Inr (Some bs) else Inr None))"

definition client_setex ::
  "real \<Rightarrow> string \<Rightarrow> int \<Rightarrow> string \<Rightarrow> redis_server \<Rightarrow> pyerr + bool \<times> redis_server" where
  "client_setex now key ttl bs srv =
     (if \<not> rs_up srv then Inl ConnectionError
      else if ttl \<le> 0 then Inl ResponseError
      else Inr (True, srv\<lparr>rs_store := (rs_store srv)(key \<mapsto> (bs, now + real_of_int ttl))\<rparr>))"

text \<open>
  The \<open>json\<close> module of the standard library is a parameter of the model: \<open>json_dumps\<close> is
  \<open>json.dumps\<close> (a \<open>str\<close>, or \<open>TypeError\<close>), \<open>json_loads\<close> is \<open>json.loads\<close> on bytes
  (a value, or \<open>JSONDecodeError\<close>).
\<close>

record json_module =
  json_dumps :: "pyval \<Rightarrow> pyerr + string"
  json_loads :: "string \<Rightarrow> pyerr + pyval"

text \<open>
  A reference instance \<open>py_json\<close> of the module, for the values made of \<open>None\<close>, booleans,
  integers, strings, lists and dicts.  \<open>dumps\<close> writes Python's default layout (\<open>", "\<close> and
  \<open>": "\<close> as separators, every character outside \<open>' '..'~'\<close> escaped); \<open>bytes\<close> and \<open>datetime\<close>
  are not serialisable, and the text of a float is not modelled.  \<open>loads\<close> reads UTF-8 bytes by
  the grammar of RFC 8259 (not the literals \<open>NaN\<close> and \<open>Infinity\<close>, not UTF-16/32 input); an
  escape beyond code point 255 has no value in this model.  The parser is driven by fuel,
  one unit per nested value or list element: the length of the input is enough.
\<close>

definition escape_char :: "char \<Rightarrow> string" where
  "escape_char c =
     (let n = (of_char c :: nat)
      in if c = CHR 0x22 then [CHR 0x5C, CHR 0x22]
         else if c = CHR 0x5C then [CHR 0x5C, CHR 0x5C]
         else if c = CHR 0x0A then [CHR 0x5C, CHR ''n'']
         else if c = CHR 0x0D then [CHR 0x5C, CHR ''r'']
         else if c = CHR 0x09 then [CHR 0x5C, CHR ''t'']
         else if c = CHR 0x08 then [CHR 0x5C, CHR ''b'']
         else if c = CHR 0x0C then [CHR 0x5C, CHR ''f'']
         else if 32 \<le> n \<and> n \<le> 126 then [c]
         else [CHR 0x5C, CHR ''u'', CHR ''0'', CHR ''0'', hex_char (n div 16), hex_char (n mod 16)])"

definition dumps_str :: "string \<Rightarrow> string" where
  "dumps_str s = [CHR 0x22] @ concat (map escape_char s) @ [CHR 0x22]"

fun dumps :: "pyval \<Rightarrow> pyerr + string"
  and dumps_items :: "pyval list \<Rightarrow> pyerr + string list"
  and dumps_members :: "(string \<times> pyval) list \<Rightarrow> pyerr + string list"
  and dumps_member :: "string \<times> pyval \<Rightarrow> pyerr + string"
where
  "dumps PNone = Inr ''null''"
| "dumps (PBool b) = Inr (if b then ''true'' else ''false'')"
| "dumps (PInt i) = Inr (str_int i)"
| "dumps (PFloat r) = Inl NotModelled"
| "dumps (PStr s) = Inr (dumps_str s)"
| "dumps (PBytes bs) = Inl TypeError"
| "dumps (PList xs) =
     (case dumps_items xs of Inl e \<Rightarrow> Inl e | Inr ts \<Rightarrow> Inr (''['' @ str_join '', '' ts @ '']''))"
| "dumps (PDict kvs) =
     (case dumps_members kvs of
        Inl e \<Rightarrow> Inl e
      | Inr ts \<Rightarrow> Inr (''{'' @ str_join '', '' ts @ ''}''))"
| "dumps (PDatetime t) = Inl TypeError"
| "dumps_items [] = Inr []"
| "dumps_items (x # xs) =
     (case dumps x of
        Inl e \<Rightarrow> Inl e
      | Inr t \<Rightarrow> (case dumps_items xs of Inl e \<Rightarrow> Inl e | Inr ts \<Rightarrow> Inr (t # ts)))"
| "dumps_members [] = Inr []"
| "dumps_members (kv # kvs) =
     (case dumps_member kv of
        Inl e \<Rightarrow> Inl e
      | Inr t \<Rightarrow> (case dumps_members kvs of Inl e \<Rightarrow> Inl e | Inr ts \<Rightarrow> Inr (t # ts)))"
| "dumps_member (k, v) =
     (case dumps v of Inl e \<Rightarrow> Inl e | Inr t \<Rightarrow> Inr (dumps_str k @ '': '' @ t))"

definition is_digit :: "char \<Rightarrow> bool" where
  "is_digit c = (48 \<le> (of_char c :: nat) \<and> (of_char c :: nat) \<le> 57)"

definition nat_of_digits :: "string \<Rightarrow> nat" where
  "nat_of_digits ds = foldl (\<lambda>n c. 10 * n + ((of_char c :: nat) - 48)) 0 ds"

definition json_ws :: "char \<Rightarrow> bool" where
  "json_ws c = (c = CHR '' '' \<or> c = CHR 0x09 \<or> c = CHR 0x0A \<or> c = CHR 0x0D)"

definition skip_ws :: "string \<Rightarrow> string" where
  "skip_ws s = dropWhile json_ws s"

definition hex_val :: "char \<Rightarrow> nat option" where
  "hex_val c =
     (let n = (of_char c :: nat)
      in if 48 \<le> n \<and> n \<le> 57 then Some (n - 48)
         else if 97 \<le> n \<and> n \<le> 102 then Some (n - 87)
         else if 65 \<le> n \<and> n \<le> 70 then Some (n - 55)
         else None)"

definition unescape :: "char \<Rightarrow> char option" where
  "unescape e =
     (if e = CHR 0x22 \<or> e = CHR 0x5C \<or> e = CHR ''/'' then Some e
      else if e = CHR ''n'' then Some (CHR 0x0A)
      else if e = CHR ''r'' then Some (CHR 0x0D)
      else if e = CHR ''t'' then Some (CHR 0x09)
      else if e = CHR ''b'' then Some (CHR 0x08)
      else if e = CHR ''f'' then Some (CHR 0x0C)
      else None)"

definition cons_result :: "char \<Rightarrow> pyerr + string \<times> string \<Rightarrow> pyerr + string \<times> string" where
  "cons_result c r = (case r of Inl e \<Rightarrow> Inl e | Inr (s, rest) \<Rightarrow> Inr (c # s, rest))"

text \<open>The characters of a string literal, after its opening quote.\<close>

fun parse_string :: "string \<Rightarrow> pyerr + string \<times> string" where
  "parse_string [] = Inl JSONDecodeError"
| "parse_string (c # cs) =
     (if c = CHR 0x22 then Inr ([], cs)
      else if c = CHR 0x5C then
        (case cs of
           [] \<Rightarrow> Inl JSONDecodeError
         | e # cs' \<Rightarrow>
             if e = CHR ''u'' then
               (case cs' of
                  a # b # c' # d # rest \<Rightarrow>
                    (case (hex_val a, hex_val b, hex_val c', hex_val d) of
                       (Some x, Some y, Some z, Some w) \<Rightarrow>
                         (let n = ((x * 16 + y) * 16 + z) * 16 + w
                          in if n < 256 then cons_result (char_of n) (parse_string rest)
                             else Inl NotModelled)
                     | _ \<Rightarrow> Inl JSONDecodeError)
                | _ \<Rightarrow> Inl JSONDecodeError)
             else
               (case unescape e of
                  None \<Rightarrow> Inl JSONDecodeError
                | Some ch \<Rightarrow> cons_result ch (parse_string cs')))
      else if (of_char c :: nat) < 32 then Inl JSONDecodeError
      else cons_result c (parse_string cs))"

text \<open>
  A number: \<open>-?(0|[1-9]\d*)(\.\d+)?([eE][-+]?\d+)?\<close>, an \<open>int\<close> without fraction and
  exponent, a \<open>float\<close> otherwise.
\<close>

definition parse_number :: "string \<Rightarrow> pyerr + pyval \<times> string" where
  "parse_number s =
     (let (neg, s1) = (case s of c # r \<Rightarrow> if c = CHR ''-'' then (True, r) else (False, s)
                       | [] \<Rightarrow> (False, s));
          ds = takeWhile is_digit s1
      in if ds = [] then Inl JSONDecodeError
         else
           (let (ip, s2) = (if hd ds = CHR ''0'' then (''0'', tl s1)
                            else (ds, dropWhile is_digit s1));
                (frac, s3) =
                  (case s2 of
                     c # r \<Rightarrow>
                       if c = CHR ''.'' \<and> takeWhile is_digit r \<noteq> []
                       then (takeWhile is_digit r, dropWhile is_digit r) else ([], s2)
                   | [] \<Rightarrow> ([], s2));
                (ex, s4) =
                  (case s3 of
                     c # r \<Rightarrow>
                       if c = CHR ''e'' \<or> c = CHR ''E'' then
                         (let (sgn, r') =
                                (case r of
                                   c' # q \<Rightarrow>
                                     if c' = CHR ''+'' then (1, q)
                                     else if c' = CHR ''-'' then (- 1, q) else (1, r)
                                 | [] \<Rightarrow> (1 :: int, r))
                          in if takeWhile is_digit r' \<noteq> []
                             then (Some (sgn * int (nat_of_digits (takeWhile is_digit r'))),
                                   dropWhile is_digit r')
                             else (None, s3))
                       else (None, s3)
                   | [] \<Rightarrow> (None, s3))
            in if frac = [] \<and> ex = None
               then Inr (PInt ((if neg then - 1 else 1) * int (nat_of_digits ip)), s4)
               else
                 (let m = real (nat_of_digits (ip @ frac)) / 10 ^ length frac;
                      e = (case ex of None \<Rightarrow> 0 | Some k \<Rightarrow> k);
                      scale = (if e \<ge> 0 then 10 ^ nat e else 1 / 10 ^ nat (- e))
                  in Inr (PFloat ((if neg then - 1 else 1) * m * scale), s4))))"

text \<open>A later member with the same key replaces the value and keeps the place.\<close>

fun dict_update :: "string \<Rightarrow> pyval \<Rightarrow> (string \<times> pyval) list \<Rightarrow> (string \<times> pyval) list" where
  "dict_update k v [] = [(k, v)]"
| "dict_update k v ((k', v') # d) =
     (if k = k' then (k, v) # d else (k', v') # dict_update k v d)"

definition dict_of_pairs :: "(string \<times> pyval) list \<Rightarrow> (string \<times> pyval) list" where
  "dict_of_pairs kvs = foldl (\<lambda>d (k, v). dict_update k v d) [] kvs"

fun parse_value :: "nat \<Rightarrow> string \<Rightarrow> pyerr + pyval \<times> string"
  and parse_elements :: "nat \<Rightarrow> string \<Rightarrow> pyerr + pyval list \<times> string"
  and parse_members :: "nat \<Rightarrow> string \<Rightarrow> pyerr + (string \<times> pyval) list \<times> string"
where
  "parse_value 0 s = Inl RecursionError"
| "parse_value (Suc n) [] = Inl JSONDecodeError"
| "parse_value (Suc n) (c # cs) =
     (if c = CHR 0x22 then
        (case parse_string cs of Inl e \<Rightarrow> Inl e | Inr (str, rest) \<Rightarrow> Inr (PStr str, rest))
      else if c = CHR ''['' then
        (case skip_ws cs of
           [] \<Rightarrow> Inl JSONDecodeError
         | c' # r \<Rightarrow>
             if c' = CHR '']'' then Inr (PList [], r)
             else (case parse_elements n (c' # r) of
                     Inl e \<Rightarrow> Inl e
                   | Inr (xs, rest) \<Rightarrow> Inr (PList xs, rest)))
      else if c = CHR ''{'' then
        (case skip_ws cs of
           [] \<Rightarrow> Inl JSONDecodeError
         | c' # r \<Rightarrow>
             if c' = CHR ''}'' then Inr (PDict [], r)
             else (case parse_members n (c' # r) of
                     Inl e \<Rightarrow> Inl e
                   | Inr (kvs, rest) \<Rightarrow> Inr (PDict (dict_of_pairs kvs), rest)))
      else if take 4 (c # cs) = ''null'' then Inr (PNone, drop 4 (c # cs))
      else if take 4 (c # cs) = ''true'' then Inr (PBool True, drop 4 (c # cs))
      else if take 5 (c # cs) = ''false'' then Inr (PBool False, drop 5 (c # cs))
      else parse_number (c # cs))"
| "parse_elements 0 s = Inl RecursionError"
| "parse_elements (Suc n) s =
     (case parse_value n s of
        Inl e \<Rightarrow> Inl e
      | Inr (x, rest) \<Rightarrow>
          (case skip_ws rest of
             [] \<Rightarrow> Inl JSONDecodeError
           | c # r \<Rightarrow>
               if c = CHR '']'' then Inr ([x], r)
               else if c = CHR '','' then
                 (case parse_elements n (skip_ws r) of
                    Inl e \<Rightarrow> Inl e
                  | Inr (xs, rest') \<Rightarrow> Inr (x # xs, rest'))
               else Inl JSONDecodeError))"
| "parse_members 0 s = Inl RecursionError"
| "parse_members (Suc n) [] = Inl JSONDecodeError"
| "parse_members (Suc n) (q # s) =
     (if q \<noteq> CHR 0x22 then Inl JSONDecodeError
      else
        (case parse_string s of
           Inl e \<Rightarrow> Inl e
         | Inr (k, rest) \<Rightarrow>
             (case skip_ws rest of
                [] \<Rightarrow> Inl JSONDecodeError
              | c # r \<Rightarrow>
                  if c \<noteq> CHR '':'' then Inl JSONDecodeError
                  else
                    (case parse_value n (skip_ws r) of
                       Inl e \<Rightarrow> Inl e
                     | Inr (v, rest') \<Rightarrow>
                         (case skip_ws rest' of
                            [] \<Rightarrow> Inl JSONDecodeError
                          | c' # r' \<Rightarrow>
                              if c' = CHR ''}'' then Inr ([(k, v)], r')
                              else if c' = CHR '','' then
                                (case parse_members n (skip_ws r') of
                                   Inl e \<Rightarrow> Inl e
                                 | Inr (kvs, rest'') \<Rightarrow> Inr ((k, v) # kvs, rest''))
                              else Inl JSONDecodeError)))))"

definition loads :: "string \<Rightarrow> pyerr + pyval" where
  "loads bs =
     (case decode_utf8 bs of
        Inl e \<Rightarrow> Inl e
      | Inr s \<Rightarrow>
          (case parse_value (Suc (length s)) (skip_ws s) of
             Inl e \<Rightarrow> Inl e
           | Inr (v, rest) \<Rightarrow> if skip_ws rest = [] then Inr v else Inl JSONDecodeError))"

definition py_json :: json_module where
  "py_json = \<lparr>json_dumps = dumps, json_loads = loads\<rparr>"

text \<open>\<open>self.client\<close> is \<open>None\<close> when the constructor could not reach the server.\<close>

record redis_cache =
  rc_client :: "redis_server option"
  rc_default_ttl :: int

definition redis_get :: "json_module \<Rightarrow> real \<Rightarrow> string \<Rightarrow> redis_cache \<Rightarrow> pyerr + pyval" where
  "redis_get J now key rc =
     (case rc_client rc of
        None \<Rightarrow> Inr PNone
      | Some srv \<Rightarrow>
          try_except
            (case client_get now key srv of
               Inl e \<Rightarrow> Inl e
             | Inr None \<Rightarrow> Inr PNone
             | Inr (Some bs) \<Rightarrow>
                 if bs \<noteq> [] then
                   (case json_loads J bs of
                      Inr v \<Rightarrow> Inr v
                    | Inl e \<Rightarrow>
                        if e = JSONDecodeError then
                          (case decode_utf8 bs of Inl e' \<Rightarrow> Inl e' | Inr s \<Rightarrow> Inr (PStr s))
                        else Inl e)
                 else Inr PNone)
            (\<lambda>e. Inr PNone))"

text \<open>The two \<open>isinstance\<close> steps of \<open>set\<close>: the bytes that go to the server.\<close>

definition redis_bytes :: "json_module \<Rightarrow> pyval \<Rightarrow> pyerr + string" where
  "redis_bytes J val =
     (case val of
        PStr s \<Rightarrow> Inr (encode_utf8 s)
      | PBytes bs \<Rightarrow> Inr bs
      | _ \<Rightarrow> (case json_dumps J val of Inl e \<Rightarrow> Inl e | Inr s \<Rightarrow> Inr (encode_utf8 s)))"

definition redis_set ::
  "json_module \<Rightarrow> real \<Rightarrow> string \<Rightarrow> pyval \<Rightarrow> int option \<Rightarrow> redis_cache
     \<Rightarrow> pyerr + bool \<times> redis_cache" where
  "redis_set J now key val ttl rc =
     (case rc_client rc of
        None \<Rightarrow> Inr (False, rc)
      | Some srv \<Rightarrow>
          (let ttl' = (case ttl of Some t \<Rightarrow> t | None \<Rightarrow> rc_default_ttl rc)
           in try_except
                (case redis_bytes J val of
                   Inl e \<Rightarrow> Inl e
                 | Inr bs \<Rightarrow>
                     (case client_setex now key ttl' bs srv of
                        Inl e \<Rightarrow> Inl e
                      | Inr (ok, srv') \<Rightarrow> Inr (ok, rc\<lparr>rc_client := Some srv'\<rparr>)))
                (\<lambda>e. Inr (False, rc))))"

section \<open>services/message\_generator/cache\_utils.py\<close>

text \<open>The request bodies \<open>User\<close> and \<open>POI\<close> of \<open>/generate\<close>, as the dicts the route passes on.\<close>

record user_params =
  age :: int
  profession :: string
  interests :: string

record poi_params =
  poi_name :: string
  poi_category :: string
  poi_description :: string

definition generate_cache_key :: "user_params \<Rightarrow> poi_params \<Rightarrow> string" where
  "generate_cache_key user poi =
     (let age_range = str_int ((age user div 5) * 5) @ ''-'' @ str_int ((age user div 5) * 5 + 4);
          interests_list =
            sort (map (\<lambda>i. str_lower (str_strip i))
                    (filter (\<lambda>i. str_strip i \<noteq> []) (str_split CHR '','' (interests user))));
          normalized_interests = str_join '','' interests_list;
          profession' = str_lower (profession user);
          poi_name' = str_lower (poi_name poi);
          poi_category' = str_lower (poi_category poi);
          combined = age_range @ '':'' @ profession' @ '':'' @ normalized_interests
                       @ '':'' @ poi_name' @ '':'' @ poi_category'
      in md5_hexdigest (encode_utf8 combined))"

text \<open>
  The module state: the configuration read from the environment, the cache object chosen
  at import (\<open>None\<close>, a \<open>RedisCache\<close> or a \<open>MemoryCache\<close>) and the counters \<open>cache_stats\<close>.
\<close>

datatype cache_backend = RedisBackend redis_cache | MemoryBackend memory_cache

record stats =
  hits :: nat
  misses :: nat
  total :: nat

record cache_utils =
  CACHE_ENABLED :: bool
  CACHE_TTL :: int
  cache :: "cache_backend option"
  cache_stats :: stats

definition cache_get ::
  "json_module \<Rightarrow> real \<Rightarrow> string \<Rightarrow> cache_backend \<Rightarrow> pyerr + pyval \<times> cache_backend" where
  "cache_get J now key c =
     (case c of
        RedisBackend rc \<Rightarrow>
          (case redis_get J now key rc of Inl e \<Rightarrow> Inl e | Inr v \<Rightarrow> Inr (v, RedisBackend rc))
      | MemoryBackend mc \<Rightarrow>
          (case memory_get now key mc of (v, mc') \<Rightarrow> Inr (v, MemoryBackend mc')))"

definition cache_set ::
  "json_module \<Rightarrow> real \<Rightarrow> string \<Rightarrow> pyval \<Rightarrow> int option \<Rightarrow> cache_backend
     \<Rightarrow> pyerr + bool \<times> cache_backend" where
  "cache_set J now key val ttl c =
     (case c of
        RedisBackend rc \<Rightarrow>
          (case redis_set J now key val ttl rc of
             Inl e \<Rightarrow> Inl e
           | Inr (ok, rc') \<Rightarrow> Inr (ok, RedisBackend rc'))
      | MemoryBackend mc \<Rightarrow>
          (case memory_set now key val ttl mc of (ok, mc') \<Rightarrow> Inr (ok, MemoryBackend mc')))"

definition get_cached_message ::
  "json_module \<Rightarrow> real \<Rightarrow> user_params \<Rightarrow> poi_params \<Rightarrow> cache_utils
     \<Rightarrow> pyerr + pyval \<times> cache_utils" where
  "get_cached_message J now user poi st =
     (case cache st of
        None \<Rightarrow> Inr (PNone, st)
      | Some c \<Rightarrow>
          if \<not> CACHE_ENABLED st then Inr (PNone, st)
          else
            (let cache_key = generate_cache_key user poi
             in case cache_get J now cache_key c of
                  Inl e \<Rightarrow> Inl e
                | Inr (result, c') \<Rightarrow>
                    (let cs = cache_stats st;
                         cs1 = cs\<lparr>total := total cs + 1\<rparr>;
                         cs2 = (if truthy result then cs1\<lparr>hits := hits cs1 + 1\<rparr>
                                else cs1\<lparr>misses := misses cs1 + 1\<rparr>)
                     in Inr (result, st\<lparr>cache := Some c', cache_stats := cs2\<rparr>))))"

definition popular_categories :: "string list" where
  "popular_categories = [''ristorante'', ''bar'', ''abbigliamento'', ''supermercato'']"

definition cache_message ::
  "json_module \<Rightarrow> real \<Rightarrow> user_params \<Rightarrow> poi_params \<Rightarrow> string \<Rightarrow> cache_utils
     \<Rightarrow> pyerr + bool \<times> cache_utils" where
  "cache_message J now user poi message st =
     (case cache st of
        None \<Rightarrow> Inr (False, st)
      | Some c \<Rightarrow>
          if \<not> CACHE_ENABLED st then Inr (False, st)
          else
            (let cache_key = generate_cache_key user poi;
                 poi_category' = str_lower (poi_category poi);
                 ttl = (if poi_category' \<in> set popular_categories then CACHE_TTL st * 2
                        else CACHE_TTL st)
             in case cache_set J now cache_key (PStr message) (Some ttl) c of
                  Inl e \<Rightarrow> Inl e
                | Inr (result, c') \<Rightarrow> Inr (result, st\<lparr>cache := Some c'\<rparr>)))"

text \<open>
  \<open>get_cache_stats\<close>: \<open>{"enabled": False}\<close> without a cache object, the counters and the
  hit rate otherwise (\<open>cache.info()\<close> is left out).
\<close>

datatype stats_reply =
    StatsDisabled
  | StatsReply bool nat nat nat real

definition get_cache_stats :: "cache_utils \<Rightarrow> stats_reply" where
  "get_cache_stats st =
     (case cache st of
        None \<Rightarrow> StatsDisabled
      | Some c \<Rightarrow>
          (let cs = cache_stats st;
               hit_rate = (if total cs > 0 then real (hits cs) / real (total cs) else 0)
           in StatsReply (CACHE_ENABLED st) (hits cs) (misses cs) (total cs) hit_rate))"

definition hit_rate_of :: "stats_reply \<Rightarrow> real option" where
  "hit_rate_of r = (case r of StatsDisabled \<Rightarrow> None | StatsReply e h m t hr \<Rightarrow> Some hr)"

text \<open>The calls that reach the module, in the order they are served.\<close>

datatype cu_op =
    GetCachedMessage real user_params poi_params
  | CacheMessage real user_params poi_params string
  | GetCacheStats

fun cu_apply :: "json_module \<Rightarrow> cu_op \<Rightarrow> cache_utils \<Rightarrow> cache_utils" where
  "cu_apply J (GetCachedMessage now user poi) st =
     (case get_cached_message J now user poi st of Inl e \<Rightarrow> st | Inr (r, st') \<Rightarrow> st')"
| "cu_apply J (CacheMessage now user poi message) st =
     (case cache_message J now user poi message st of Inl e \<Rightarrow> st | Inr (r, st') \<Rightarrow> st')"
| "cu_apply J GetCacheStats st = st"

fun cu_run :: "json_module \<Rightarrow> cu_op list \<Rightarrow> cache_utils \<Rightarrow> cache_utils" where
  "cu_run J [] st = st"
| "cu_run J (op # ops) st = cu_run J ops (cu_apply J op st)"

text \<open>The module right after import: the counters are zero.\<close>

definition cache_utils_init :: "bool \<Rightarrow> int \<Rightarrow> cache_backend option \<Rightarrow> cache_utils" where
  "cache_utils_init enabled ttl c =
     \<lparr>CACHE_ENABLED = enabled, CACHE_TTL = ttl, cache = c,
      cache_stats = \<lparr>hits = 0, misses = 0, total = 0\<rparr>\<rparr>"

section \<open>services/message\_generator/services/generator\_service.py\<close>

definition get_fallback_message :: "string \<Rightarrow> string \<Rightarrow> string" where
  "get_fallback_message shop_name category =
     (let templates =
            [(''ristorante'',
              ''Sei vicino a '' @ shop_name @ ''! Un ottimo posto per una pausa pranzo gustosa.''),
             (''bar'',
              shop_name @ '' '' @ [CHR 0xE8] @ '' a pochi passi! Che ne dici di un ottimo caff''
                @ [CHR 0xE8] @ ''?''),
             (''abbigliamento'',
              ''Dai un'' @ [CHR 0x27] @ ''occhiata alle offerte di '' @ shop_name
                @ '' proprio qui vicino!''),
             (''supermercato'',
              shop_name @ '' '' @ [CHR 0xE8] @ '' qui vicino, perfetto per fare la spesa velocemente.'')]
      in case map_of templates (str_lower category) of
           Some t \<Rightarrow> t
         | None \<Rightarrow> ''Sei vicino a '' @ shop_name @ ''! Fermati a dare un'' @ [CHR 0x27] @ ''occhiata.'')"

text \<open>
  \<open>_call_llm\<close>.  Its argument \<open>llm\<close> is what rendering the prompt and calling the LLM client
  does for this request: it raises, or it returns the content of the reply.
\<close>

definition call_llm :: "pyerr + string \<Rightarrow> user_params \<Rightarrow> poi_params \<Rightarrow> string" where
  "call_llm llm user poi =
     (case llm of
        Inr content \<Rightarrow> str_strip content
      | Inl e \<Rightarrow> get_fallback_message (poi_name poi) (poi_category poi))"

definition generate_message ::
  "json_module \<Rightarrow> real \<Rightarrow> pyerr + string \<Rightarrow> user_params \<Rightarrow> poi_params \<Rightarrow> cache_utils
     \<Rightarrow> pyerr + (pyval \<times> bool) \<times> cache_utils" where
  "generate_message J now llm user poi st =
     (case get_cached_message J now user poi st of
        Inl e \<Rightarrow> Inl e
      | Inr (cached_message, st1) \<Rightarrow>
          if truthy cached_message then Inr ((cached_message, True), st1)
          else
            (let generated = call_llm llm user poi
             in case cache_message J now user poi generated st1 of
                  Inl e \<Rightarrow> Inl e
                | Inr (ok, st2) \<Rightarrow> Inr ((PStr generated, False), st2)))"

section \<open>src/query\_service\<close>

text \<open>
  A naive \<open>datetime\<close> is its number of microseconds on the time line, a \<open>timedelta\<close> a
  difference of two; \<open>timedelta.days\<close> is the floor of the difference over one day.
\<close>

definition should_use_stream :: "int \<Rightarrow> int \<Rightarrow> int \<Rightarrow> string \<Rightarrow> bool" where
  "should_use_stream now start_time end_time granularity =
     (let days_ago = (now - start_time) div 86400000000;
          range_hours = real_of_int (end_time - start_time) / 1000000 / 3600
      in if days_ago \<le> 7 \<and> granularity \<in> set [''minute'', ''hour''] then True
         else if range_hours \<le> 24 then True
         else False)"

record TimeSeriesQuery =
  q_metric :: string
  q_start_time :: int
  q_end_time :: int
  q_granularity :: string
  q_filters :: "(string \<times> pyval) list"

record TimeSeriesDataPoint =
  dp_timestamp :: int
  dp_value :: real
  dp_metadata :: "(string \<times> pyval) list option"

record TimeSeriesResponse =
  resp_data :: "TimeSeriesDataPoint list"
  resp_source :: string
  resp_cached :: bool

text \<open>\<open>response.dict()\<close>.\<close>

definition datapoint_dict :: "TimeSeriesDataPoint \<Rightarrow> pyval" where
  "datapoint_dict dp =
     PDict [(''timestamp'', PDatetime (dp_timestamp dp)),
            (''value'', PFloat (dp_value dp)),
            (''metadata'', (case dp_metadata dp of None \<Rightarrow> PNone | Some m \<Rightarrow> PDict m))]"

definition response_dict :: "TimeSeriesResponse \<Rightarrow> pyval" where
  "response_dict r =
     PDict [(''data'', PList (map datapoint_dict (resp_data r))),
            (''source'', PStr (resp_source r)),
            (''cached'', PBool (resp_cached r))]"

text \<open>
  \<open>TimeSeriesResponse(**cached)\<close>, for the dicts that \<open>response.dict()\<close> produces and
  their JSON images: the fields are read by name, \<open>metadata\<close> and \<open>cached\<close> have defaults,
  an integer is accepted for the float.  (Pydantic coerces more than that; here anything
  else is a \<open>ValidationError\<close>, and an argument that is no dict a \<open>TypeError\<close>.)
\<close>

definition metadata_of :: "pyval option \<Rightarrow> pyerr + (string \<times> pyval) list option" where
  "metadata_of v =
     (case v of
        None \<Rightarrow> Inr (Some [])
      | Some PNone \<Rightarrow> Inr None
      | Some (PDict m) \<Rightarrow> Inr (Some m)
      | Some _ \<Rightarrow> Inl ValidationError)"

definition float_of :: "pyval option \<Rightarrow> pyerr + real" where
  "float_of v =
     (case v of
        Some (PFloat x) \<Rightarrow> Inr x
      | Some (PInt i) \<Rightarrow> Inr (real_of_int i)
      | _ \<Rightarrow> Inl ValidationError)"

definition datapoint_of :: "pyval \<Rightarrow> pyerr + TimeSeriesDataPoint" where
  "datapoint_of v =
     (case v of
        PDict kvs \<Rightarrow>
          (case map_of kvs ''timestamp'' of
             Some (PDatetime t) \<Rightarrow>
               (case float_of (map_of kvs ''value'') of
                  Inl e \<Rightarrow> Inl e
                | Inr x \<Rightarrow>
                    (case metadata_of (map_of kvs ''metadata'') of
                       Inl e \<Rightarrow> Inl e
                     | Inr md \<Rightarrow> Inr \<lparr>dp_timestamp = t, dp_value = x, dp_metadata = md\<rparr>))
           | _ \<Rightarrow> Inl ValidationError)
      | _ \<Rightarrow> Inl ValidationError)"

fun datapoints_of :: "pyval list \<Rightarrow> pyerr + TimeSeriesDataPoint list" where
  "datapoints_of [] = Inr []"
| "datapoints_of (v # vs) =
     (case datapoint_of v of
        Inl e \<Rightarrow> Inl e
      | Inr dp \<Rightarrow> (case datapoints_of vs of Inl e \<Rightarrow> Inl e | Inr dps \<Rightarrow> Inr (dp # dps)))"

definition response_of :: "pyval \<Rightarrow> pyerr + TimeSeriesResponse" where
  "response_of v =
     (case v of
        PDict kvs \<Rightarrow>
          (case (map_of kvs ''data'', map_of kvs ''source'') of
             (Some (PList ds), Some (PStr src)) \<Rightarrow>
               (case datapoints_of ds of
                  Inl e \<Rightarrow> Inl e
                | Inr dps \<Rightarrow>
                    (case map_of kvs ''cached'' of
                       None \<Rightarrow> Inr \<lparr>resp_data = dps, resp_source = src, resp_cached = False\<rparr>
                     | Some (PBool b) \<Rightarrow>
                         Inr \<lparr>resp_data = dps, resp_source = src, resp_cached = b\<rparr>
                     | Some _ \<Rightarrow> Inl ValidationError))
           | _ \<Rightarrow> Inl ValidationError)
      | _ \<Rightarrow> Inl TypeError)"

text \<open>\<open>QueryCacheManager\<close>: \<open>self.cache\<close> is \<open>None\<close> when caching is disabled.\<close>

record query_cache_manager =
  qcm_cache :: "cache_backend option"

text \<open>
  \<open>get_cache_key\<close>; \<open>params_str\<close> is the text \<open>json.dumps(params, sort_keys=True,
  default=str)\<close>.
\<close>

definition get_cache_key :: "string \<Rightarrow> string \<Rightarrow> string" where
  "get_cache_key query_type params_str =
     ''query:'' @ query_type @ '':'' @ md5_hexdigest (encode_utf8 params_str)"

definition qcm_get ::
  "json_module \<Rightarrow> real \<Rightarrow> string \<Rightarrow> query_cache_manager
     \<Rightarrow> pyerr + pyval \<times> query_cache_manager" where
  "qcm_get J now key m =
     (case qcm_cache m of
        None \<Rightarrow> Inr (PNone, m)
      | Some c \<Rightarrow>
          try_except
            (case cache_get J now key c of
               Inl e \<Rightarrow> Inl e
             | Inr (v, c') \<Rightarrow> Inr (v, m\<lparr>qcm_cache := Some c'\<rparr>))
            (\<lambda>e. Inr (PNone, m)))"

definition qcm_set ::
  "json_module \<Rightarrow> real \<Rightarrow> string \<Rightarrow> pyval \<Rightarrow> int option \<Rightarrow> query_cache_manager
     \<Rightarrow> pyerr + bool \<times> query_cache_manager" where
  "qcm_set J now key val ttl m =
     (case qcm_cache m of
        None \<Rightarrow> Inr (False, m)
      | Some c \<Rightarrow>
          try_except
            (case cache_set J now key val ttl c of
               Inl e \<Rightarrow> Inl e
             | Inr (ok, c') \<Rightarrow> Inr (ok, m\<lparr>qcm_cache := Some c'\<rparr>))
            (\<lambda>e. Inr (False, m)))"

text \<open>
  \<open>POST /timeseries\<close>.  The parameters stand for what lies outside the service:
  \<open>params_json\<close> writes \<open>query.dict()\<close> as the text the cache key is hashed from, \<open>engine\<close>
  is the query against the stream (\<open>True\<close>) or the batch (\<open>False\<close>) tables, \<open>now_dt\<close> is
  \<open>datetime.now()\<close> and \<open>now\<close> is \<open>time.time()\<close>.  The reply is the response, or \<open>Inl\<close> the
  status of the \<open>HTTPException\<close>.
\<close>

definition query_timeseries ::
  "json_module \<Rightarrow> (TimeSeriesQuery \<Rightarrow> pyerr + string)
     \<Rightarrow> (bool \<Rightarrow> TimeSeriesQuery \<Rightarrow> pyerr + TimeSeriesDataPoint list)
     \<Rightarrow> int \<Rightarrow> real \<Rightarrow> TimeSeriesQuery \<Rightarrow> query_cache_manager
     \<Rightarrow> (nat + TimeSeriesResponse) \<times> query_cache_manager" where
  "query_timeseries J params_json engine now_dt now query m =
     (case params_json query of
        Inl e \<Rightarrow> (Inl 500, m)
      | Inr params_str \<Rightarrow>
          (let cache_key = get_cache_key ''timeseries'' params_str
           in case qcm_get J now cache_key m of
                Inl e \<Rightarrow> (Inl 500, m)
              | Inr (cached, m1) \<Rightarrow>
                  if truthy cached then
                    (case response_of cached of
                       Inl e \<Rightarrow> (Inl 500, m1)
                     | Inr r \<Rightarrow> (Inr r, m1))
                  else
                    (let use_stream =
                           should_use_stream now_dt (q_start_time query) (q_end_time query)
                             (q_granularity query)
                     in case engine use_stream query of
                          Inl e \<Rightarrow> (Inl 500, m1)
                        | Inr result \<Rightarrow>
                            (let response =
                                   \<lparr>resp_data = result,
                                    resp_source = (if use_stream then ''stream'' else ''batch''),
                                    resp_cached = False\<rparr>
                             in case qcm_set J now cache_key (response_dict response) (Some 300) m1 of
                                  Inl e \<Rightarrow> (Inl 500, m1)
                                | Inr (ok, m2) \<Rightarrow> (Inr response, m2)))))"

section \<open>src/data\_pipeline/operators.py\<close>




text \<open>The reply of the generator: the status and what \<open>response.json()["message"]\<close> gives.\<close>

record generator_response =
  status_code :: int
  message :: "pyerr + string"


datatype io =
    ProfileQuery int "pyerr + (int \<times> int \<times> string \<times> string) list"
  | GeneratorPost user_params poi_params "pyerr + generator_response"

record connections =
  message_cache :: "string \<rightharpoonup> string"
  io_log :: "io list"








section \<open>Observations of the state, and the wording of the specification\<close>


text \<open>The relation between the three counters.\<close>

definition counters_consistent :: "cache_utils \<Rightarrow> bool" where
  "counters_consistent st = (hits (cache_stats st) + misses (cache_stats st) = total (cache_stats st))"

text \<open>
  The fingerprint as section 4.3 of the specification words it, step by step, to be
  compared with \<open>generate_cache_key\<close>: the age bucket \<open>floor(age/5)*5 .. floor(age/5)*5+4\<close>;
  the interests split on commas, trimmed, lower-cased, the empty ones dropped, sorted and
  rejoined with commas; the five parts joined with colons.
\<close>

definition age_bucket :: "int \<Rightarrow> int \<times> int" where
  "age_bucket a = (\<lfloor>real_of_int a / 5\<rfloor> * 5, \<lfloor>real_of_int a / 5\<rfloor> * 5 + 4)"

definition normalize_interests :: "string \<Rightarrow> string" where
  "normalize_interests s =
     str_join '',''
       (sort (filter (\<lambda>i. i \<noteq> []) (map str_lower (map str_strip (str_split CHR '','' s)))))"

definition fingerprint_text :: "user_params \<Rightarrow> poi_params \<Rightarrow> string" where
  "fingerprint_text user poi =
     (case age_bucket (age user) of
        (lo, hi) \<Rightarrow>
          str_int lo @ ''-'' @ str_int hi
            @ '':'' @ str_lower (profession user)
            @ '':'' @ normalize_interests (interests user)
            @ '':'' @ str_lower (poi_name poi)
            @ '':'' @ str_lower (poi_category poi))"

text \<open>
  The routing rule as section 4.7 of the specification words it, to be compared with
  \<open>should_use_stream\<close>: stream if \<open>start_time \<ge> now - 7 days\<close> and the granularity is
  minute or hour, else stream if \<open>end_time - start_time \<le> 24 h\<close>, else batch.
\<close>

definition routes_to_stream :: "int \<Rightarrow> int \<Rightarrow> int \<Rightarrow> string \<Rightarrow> bool" where
  "routes_to_stream now start_time end_time granularity =
     (if start_time \<ge> now - 7 * 86400000000 \<and> (granularity = ''minute'' \<or> granularity = ''hour'')
      then True
      else if end_time - start_time \<le> 24 * 3600000000 then True
      else False)"

text \<open>
  What the log tells: the messages that the generator has returned with status 200, the
  stage run over a sequence of items (each with the world it meets; an item whose stage
  raises leaves the connections as they were), and the relation between the memo and the
  log.
\<close>

fun returned_message :: "io \<Rightarrow> string option" where
  "returned_message (ProfileQuery uid answer) = None"
| "returned_message (GeneratorPost user poi reply) =
     (case reply of
        Inl e \<Rightarrow> None
      | Inr response \<Rightarrow>
          if status_code response = 200
          then (case message response of Inl e \<Rightarrow> None | Inr msg \<Rightarrow> Some msg)
          else None)"

definition generated :: "connections \<Rightarrow> string list" where
  "generated conn = List.map_filter returned_message (io_log conn)"




chapter \<open>Properties\<close>

section \<open>The in-process cache\<close>








section \<open>The remote cache without its backend\<close>

lemma redis_get_returns: "\<exists>v. redis_get J now key rc = Inr v"
  by (auto simp: redis_get_def try_except_def split: option.splits sum.splits)

lemma redis_set_returns: "\<exists>ok rc'. redis_set J now key val ttl rc = Inr (ok, rc')"
  by (auto simp: redis_set_def try_except_def Let_def split: option.splits sum.splits)

lemma redis_get_no_client: "rc_client rc = None \<Longrightarrow> redis_get J now key rc = Inr PNone"
  by (simp add: redis_get_def)

lemma redis_get_op_raises:
  "rc_client rc = Some srv \<Longrightarrow> client_get now key srv = Inl e \<Longrightarrow> redis_get J now key rc = Inr PNone"
  by (simp add: redis_get_def try_except_def)

lemma redis_set_no_client: "rc_client rc = None \<Longrightarrow> redis_set J now key val ttl rc = Inr (False, rc)"
  by (simp add: redis_set_def)

lemma redis_set_op_raises:
  assumes "rc_client rc = Some srv"
    and "\<And>bs. redis_bytes J val = Inr bs \<Longrightarrow>
            \<exists>e. client_setex now key (case ttl of Some t \<Rightarrow> t | None \<Rightarrow> rc_default_ttl rc) bs srv = Inl e"
  shows "redis_set J now key val ttl rc = Inr (False, rc)"
proof (cases "redis_bytes J val")
  case (Inl e)
  with assms(1) show ?thesis by (simp add: redis_set_def try_except_def)
next
  case (Inr bs)
  from assms(2)[OF Inr] obtain e where
    "client_setex now key (case ttl of Some t \<Rightarrow> t | None \<Rightarrow> rc_default_ttl rc) bs srv = Inl e" ..
  with assms(1) Inr show ?thesis by (simp add: redis_set_def try_except_def)
qed

text \<open>
  Claim C9.  Neither \<open>RedisCache.get\<close> nor \<open>RedisCache.set\<close> ever raises, whatever the
  server, the \<open>json\<close> module and the arguments do.  Without a connected client, or when the
  command sent to the server raises, \<open>get\<close> returns \<open>None\<close> and \<open>set\<close> returns \<open>False\<close>.
\<close>

theorem redis_cache_degrades:
  "(\<exists>v. redis_get J now key rc = Inr v)
   \<and> (\<exists>ok rc'. redis_set J now key val ttl rc = Inr (ok, rc'))
   \<and> (rc_client rc = None \<or> (\<exists>srv e. rc_client rc = Some srv \<and> client_get now key srv = Inl e)
        \<longrightarrow> redis_get J now key rc = Inr PNone)
   \<and> (rc_client rc = None
        \<or> (\<exists>srv. rc_client rc = Some srv \<and>
              (\<forall>bs. redis_bytes J val = Inr bs \<longrightarrow>
                 (\<exists>e. client_setex now key (case ttl of Some t \<Rightarrow> t | None \<Rightarrow> rc_default_ttl rc)
                        bs srv = Inl e)))
        \<longrightarrow> redis_set J now key val ttl rc = Inr (False, rc))"
proof (intro conjI impI)
  show "\<exists>v. redis_get J now key rc = Inr v" by (rule redis_get_returns)
  show "\<exists>ok rc'. redis_set J now key val ttl rc = Inr (ok, rc')" by (rule redis_set_returns)
next
  assume "rc_client rc = None \<or> (\<exists>srv e. rc_client rc = Some srv \<and> client_get now key srv = Inl e)"
  then show "redis_get J now key rc = Inr PNone"
    by (auto intro: redis_get_no_client redis_get_op_raises)
next
  assume "rc_client rc = None
        \<or> (\<exists>srv. rc_client rc = Some srv \<and>
              (\<forall>bs. redis_bytes J val = Inr bs \<longrightarrow>
                 (\<exists>e. client_setex now key (case ttl of Some t \<Rightarrow> t | None \<Rightarrow> rc_default_ttl rc)
                        bs srv = Inl e)))"
  then show "redis_set J now key val ttl rc = Inr (False, rc)"
    by (auto intro: redis_set_no_client redis_set_op_raises)
qed

theorem redis_cache_degrades_witness:
  "redis_get py_json 0 ''k''
     \<lparr>rc_client = Some \<lparr>rs_store = Map.empty, rs_up = False\<rparr>, rc_default_ttl = 86400\<rparr> = Inr PNone
   \<and> redis_set py_json 0 ''k'' (PStr ''v'') None
     \<lparr>rc_client = Some \<lparr>rs_store = Map.empty, rs_up = False\<rparr>, rc_default_ttl = 86400\<rparr>
     = Inr (False, \<lparr>rc_client = Some \<lparr>rs_store = Map.empty, rs_up = False\<rparr>, rc_default_ttl = 86400\<rparr>)"
  using redis_cache_degrades[of py_json 0 "''k''"
      "\<lparr>rc_client = Some \<lparr>rs_store = Map.empty, rs_up = False\<rparr>, rc_default_ttl = 86400\<rparr>"
      "PStr ''v''" None]
  by (simp add: client_get_def client_setex_def)

section \<open>The adaptive time to live\<close>






section \<open>The cache statistics\<close>

lemma cache_get_returns: "\<exists>v c'. cache_get J now key c = Inr (v, c')"
proof (cases c)
  case (RedisBackend rc)
  with redis_get_returns[of J now key rc] show ?thesis
    by (auto simp: cache_get_def)
next
  case (MemoryBackend mc)
  then show ?thesis
    by (cases "memory_get now key mc") (simp add: cache_get_def)
qed

lemma cache_set_returns: "\<exists>ok c'. cache_set J now key val ttl c = Inr (ok, c')"
proof (cases c)
  case (RedisBackend rc)
  with redis_set_returns[of J now key val ttl rc] show ?thesis
    by (auto simp: cache_set_def)
next
  case (MemoryBackend mc)
  then show ?thesis
    by (cases "memory_set now key val ttl mc") (simp add: cache_set_def)
qed

lemma get_cached_message_enabled:
  assumes "CACHE_ENABLED st" "cache st = Some c"
  shows "\<exists>r st'. get_cached_message J now user poi st = Inr (r, st')
           \<and> total (cache_stats st') = total (cache_stats st) + 1
           \<and> (hits (cache_stats st') = hits (cache_stats st) + 1
                \<and> misses (cache_stats st') = misses (cache_stats st)
              \<or> hits (cache_stats st') = hits (cache_stats st)
                \<and> misses (cache_stats st') = misses (cache_stats st) + 1)"
proof -
  obtain v c' where "cache_get J now (generate_cache_key user poi) c = Inr (v, c')"
    using cache_get_returns by blast
  with assms show ?thesis
    by (simp add: get_cached_message_def Let_def)
qed

lemma get_cached_message_disabled:
  assumes "\<not> CACHE_ENABLED st \<or> cache st = None"
  shows "get_cached_message J now user poi st = Inr (PNone, st)"
  using assms by (auto simp: get_cached_message_def split: option.splits)

lemma get_cached_message_consistent:
  assumes "counters_consistent st" "get_cached_message J now user poi st = Inr (r, st')"
  shows "counters_consistent st'"
proof (cases "CACHE_ENABLED st \<and> cache st \<noteq> None")
  case True
  then obtain c where "CACHE_ENABLED st" "cache st = Some c" by auto
  from get_cached_message_enabled[OF this, of J now user poi] assms show ?thesis
    by (auto simp: counters_consistent_def)
next
  case False
  then have "get_cached_message J now user poi st = Inr (PNone, st)"
    by (intro get_cached_message_disabled) auto
  with assms show ?thesis by simp
qed

lemma cache_message_stats:
  assumes "cache_message J now user poi msg st = Inr (r, st')"
  shows "cache_stats st' = cache_stats st"
  using assms
  by (auto simp: cache_message_def Let_def split: option.splits if_splits sum.splits)

lemma cu_apply_consistent:
  assumes "counters_consistent st"
  shows "counters_consistent (cu_apply J op st)"
proof (cases op)
  case (GetCachedMessage now user poi)
  with assms show ?thesis
    by (auto split: sum.splits dest: get_cached_message_consistent)
next
  case (CacheMessage now user poi msg)
  with assms show ?thesis
    by (auto simp: counters_consistent_def split: sum.splits dest: cache_message_stats)
next
  case GetCacheStats
  with assms show ?thesis by simp
qed

lemma cu_run_consistent:
  assumes "counters_consistent st"
  shows "counters_consistent (cu_run J ops st)"
  using assms by (induction ops arbitrary: st) (auto intro: cu_apply_consistent)

lemma init_consistent: "counters_consistent (cache_utils_init enabled ttl c)"
  by (simp add: counters_consistent_def cache_utils_init_def)

lemma hit_rate_bounds:
  assumes "counters_consistent st" "hit_rate_of (get_cache_stats st) = Some hr"
  shows "0 \<le> hr \<and> hr \<le> 1 \<and> (total (cache_stats st) = 0 \<longrightarrow> hr = 0)
         \<and> (total (cache_stats st) > 0 \<longrightarrow>
               hr = real (hits (cache_stats st)) / real (total (cache_stats st)))"
proof -
  from assms(1) have le: "hits (cache_stats st) \<le> total (cache_stats st)"
    by (simp add: counters_consistent_def)
  from assms(2) have hr: "hr = (if total (cache_stats st) > 0
             then real (hits (cache_stats st)) / real (total (cache_stats st)) else 0)"
    by (auto simp: hit_rate_of_def get_cache_stats_def Let_def split: option.splits)
  show ?thesis
  proof (cases "total (cache_stats st) > 0")
    case True
    with le hr show ?thesis by (simp add: divide_le_eq)
  next
    case False
    with hr show ?thesis by simp
  qed
qed

text \<open>
  Claim C10 (as amended).  The counters of the message-generator cache start at zero, and
  after every sequence of calls of the module \<open>hits + misses = total\<close>; the hit rate that
  \<open>get_cache_stats\<close> reports is \<open>hits / total\<close>, lies in \<open>[0, 1]\<close> and is 0 when \<open>total\<close> is
  0.  A call of \<open>get_cached_message\<close> with a cache object and caching enabled increments
  \<open>total\<close> and exactly one of \<open>hits\<close> and \<open>misses\<close>; a call without a cache object or with
  caching disabled returns \<open>None\<close> and leaves the counters as they are.
\<close>

theorem cache_stats_consistent:
  "cache_stats (cache_utils_init enabled ttl c) = \<lparr>hits = 0, misses = 0, total = 0\<rparr>
   \<and> hits (cache_stats (cu_run J ops (cache_utils_init enabled ttl c)))
       + misses (cache_stats (cu_run J ops (cache_utils_init enabled ttl c)))
       = total (cache_stats (cu_run J ops (cache_utils_init enabled ttl c)))
   \<and> (\<forall>hr. hit_rate_of (get_cache_stats (cu_run J ops (cache_utils_init enabled ttl c))) = Some hr
         \<longrightarrow> 0 \<le> hr \<and> hr \<le> 1
             \<and> (total (cache_stats (cu_run J ops (cache_utils_init enabled ttl c))) = 0 \<longrightarrow> hr = 0)
             \<and> (total (cache_stats (cu_run J ops (cache_utils_init enabled ttl c))) > 0 \<longrightarrow>
                  hr = real (hits (cache_stats (cu_run J ops (cache_utils_init enabled ttl c))))
                       / real (total (cache_stats (cu_run J ops (cache_utils_init enabled ttl c))))))
   \<and> (CACHE_ENABLED st \<and> cache st \<noteq> None \<longrightarrow>
        (\<exists>r st'. get_cached_message J now user poi st = Inr (r, st')
           \<and> total (cache_stats st') = total (cache_stats st) + 1
           \<and> (hits (cache_stats st') = hits (cache_stats st) + 1
                \<and> misses (cache_stats st') = misses (cache_stats st)
              \<or> hits (cache_stats st') = hits (cache_stats st)
                \<and> misses (cache_stats st') = misses (cache_stats st) + 1)))
   \<and> (\<not> CACHE_ENABLED st \<or> cache st = None \<longrightarrow>
        get_cached_message J now user poi st = Inr (PNone, st))"
proof -
  let ?S = "cu_run J ops (cache_utils_init enabled ttl c)"
  have c: "counters_consistent ?S"
    by (rule cu_run_consistent[OF init_consistent])
  have 1: "cache_stats (cache_utils_init enabled ttl c) = \<lparr>hits = 0, misses = 0, total = 0\<rparr>"
    by (simp add: cache_utils_init_def)
  have 2: "hits (cache_stats ?S) + misses (cache_stats ?S) = total (cache_stats ?S)"
    using c by (simp add: counters_consistent_def)
  have 3: "\<forall>hr. hit_rate_of (get_cache_stats ?S) = Some hr
         \<longrightarrow> 0 \<le> hr \<and> hr \<le> 1
             \<and> (total (cache_stats ?S) = 0 \<longrightarrow> hr = 0)
             \<and> (total (cache_stats ?S) > 0 \<longrightarrow>
                  hr = real (hits (cache_stats ?S)) / real (total (cache_stats ?S)))"
    using hit_rate_bounds[OF c] by blast
  have 4: "CACHE_ENABLED st \<and> cache st \<noteq> None \<longrightarrow>
        (\<exists>r st'. get_cached_message J now user poi st = Inr (r, st')
           \<and> total (cache_stats st') = total (cache_stats st) + 1
           \<and> (hits (cache_stats st') = hits (cache_stats st) + 1
                \<and> misses (cache_stats st') = misses (cache_stats st)
              \<or> hits (cache_stats st') = hits (cache_stats st)
                \<and> misses (cache_stats st') = misses (cache_stats st) + 1))"
    using get_cached_message_enabled[of st _ J now user poi] by auto
  have 5: "\<not> CACHE_ENABLED st \<or> cache st = None \<longrightarrow>
        get_cached_message J now user poi st = Inr (PNone, st)"
    using get_cached_message_disabled[of st J now user poi] by blast
  from 1 2 3 4 5 show ?thesis by blast
qed

theorem cache_stats_consistent_witness:
  "hit_rate_of (get_cache_stats (cu_run py_json
       [GetCachedMessage 0 \<lparr>age = 30, profession = ''Ingegnere'', interests = ''cucina''\<rparr>
          \<lparr>poi_name = ''Caffe X'', poi_category = ''bar'', poi_description = []\<rparr>]
       (cache_utils_init True 86400
          (Some (MemoryBackend \<lparr>mem_cache = Map.empty, mem_default_ttl = Some 86400\<rparr>))))) = Some 0
   \<and> total (cache_stats (cu_run py_json
       [GetCachedMessage 0 \<lparr>age = 30, profession = ''Ingegnere'', interests = ''cucina''\<rparr>
          \<lparr>poi_name = ''Caffe X'', poi_category = ''bar'', poi_description = []\<rparr>]
       (cache_utils_init True 86400
          (Some (MemoryBackend \<lparr>mem_cache = Map.empty, mem_default_ttl = Some 86400\<rparr>))))) = 1
   \<and> (\<exists>r st'. get_cached_message py_json 0
           \<lparr>age = 30, profession = ''Ingegnere'', interests = ''cucina''\<rparr>
           \<lparr>poi_name = ''Caffe X'', poi_category = ''bar'', poi_description = []\<rparr>
           (cache_utils_init True 86400
              (Some (MemoryBackend \<lparr>mem_cache = Map.empty, mem_default_ttl = Some 86400\<rparr>)))
         = Inr (r, st') \<and> total (cache_stats st') = 1)"
proof -
  let ?u = "\<lparr>age = 30, profession = ''Ingegnere'', interests = ''cucina''\<rparr>"
  let ?p = "\<lparr>poi_name = ''Caffe X'', poi_category = ''bar'', poi_description = []\<rparr>"
  let ?c = "Some (MemoryBackend \<lparr>mem_cache = Map.empty, mem_default_ttl = Some 86400\<rparr>)"
  let ?S = "cu_run py_json [GetCachedMessage 0 ?u ?p] (cache_utils_init True 86400 ?c)"
  have run: "?S = \<lparr>CACHE_ENABLED = True, CACHE_TTL = 86400, cache = ?c,
                    cache_stats = \<lparr>hits = 0, misses = 1, total = 1\<rparr>\<rparr>"
    by (simp add: get_cached_message_def cache_get_def memory_get_def cache_utils_init_def)
  have rate: "hit_rate_of (get_cache_stats ?S) = Some 0"
    unfolding run by (simp add: hit_rate_of_def get_cache_stats_def)
  have en: "CACHE_ENABLED (cache_utils_init True 86400 ?c)
            \<and> cache (cache_utils_init True 86400 ?c) \<noteq> None"
    by (simp add: cache_utils_init_def)
  have tot0: "total (cache_stats (cache_utils_init True 86400 ?c)) = 0"
    by (simp add: cache_utils_init_def)
  from cache_stats_consistent[of True 86400 ?c py_json "[GetCachedMessage 0 ?u ?p]"
      "cache_utils_init True 86400 ?c" 0 ?u ?p] en tot0
  have "\<exists>r st'. get_cached_message py_json 0 ?u ?p (cache_utils_init True 86400 ?c) = Inr (r, st')
          \<and> total (cache_stats st') = 1"
    by auto
  moreover have "total (cache_stats ?S) = 1"
    unfolding run by simp
  ultimately show ?thesis using rate by blast
qed

theorem get_cached_message_disabled_counterexample:
  "get_cached_message py_json 0
      \<lparr>age = 30, profession = ''Ingegnere'', interests = ''cucina''\<rparr>
      \<lparr>poi_name = ''Caffe X'', poi_category = ''bar'', poi_description = []\<rparr>
      (cache_utils_init False 86400 None)
    = Inr (PNone, cache_utils_init False 86400 None)
   \<and> total (cache_stats (cache_utils_init False 86400 None)) = 0"
  by (simp add: get_cached_message_def cache_utils_init_def)

section \<open>The cache fingerprint\<close>

lemma age_bucket_div: "age_bucket a = ((a div 5) * 5, (a div 5) * 5 + 4)"
proof -
  have "\<lfloor>real_of_int a / real_of_int 5\<rfloor> = a div 5"
    by (rule floor_divide_of_int_eq)
  then show ?thesis by (simp add: age_bucket_def)
qed

lemma str_lower_empty_iff: "str_lower s = [] \<longleftrightarrow> s = []"
  by (simp add: str_lower_def)

lemma interests_list_eq:
  "map (\<lambda>i. str_lower (str_strip i)) (filter (\<lambda>i. str_strip i \<noteq> []) xs)
   = filter (\<lambda>i. i \<noteq> []) (map str_lower (map str_strip xs))"
  by (induction xs) (simp_all add: str_lower_empty_iff)

lemma generate_cache_key_text:
  "generate_cache_key user poi = md5_hexdigest (encode_utf8 (fingerprint_text user poi))"
  by (simp add: generate_cache_key_def fingerprint_text_def normalize_interests_def
      age_bucket_div interests_list_eq Let_def)

lemma sort_cong_mset:
  fixes xs ys :: "string list"
  assumes "mset xs = mset ys"
  shows "sort xs = sort ys"
  by (rule properties_for_sort) (simp_all add: assms)

lemma normalize_interests_cong:
  assumes "mset (map (\<lambda>i. str_lower (str_strip i)) (str_split CHR '','' s'))
         = mset (map (\<lambda>i. str_lower (str_strip i)) (str_split CHR '','' s))"
  shows "normalize_interests s' = normalize_interests s"
proof -
  let ?n = "\<lambda>s. map str_lower (map str_strip (str_split CHR '','' s))"
  from assms have "mset (?n s') = mset (?n s)"
    by (simp add: comp_def)
  then have "mset (filter (\<lambda>i. i \<noteq> []) (?n s')) = mset (filter (\<lambda>i. i \<noteq> []) (?n s))"
    by (simp only: mset_filter)
  then have "sort (filter (\<lambda>i. i \<noteq> []) (?n s')) = sort (filter (\<lambda>i. i \<noteq> []) (?n s))"
    by (rule sort_cong_mset)
  then show ?thesis by (simp only: normalize_interests_def)
qed


lemma of_char_lower_upper:
  assumes "isupper_char c"
  shows "(of_char (lower_char c) :: nat) = of_char c + 32"
proof -
  from assms have "(of_char c :: nat) \<le> 222"
    by (auto simp: isupper_char_def Let_def)
  then have "((of_char c :: nat) + 32) mod 256 = of_char c + 32"
    by simp
  with assms show ?thesis by (simp add: lower_char_def)
qed

lemma lower_char_comma: "lower_char c = CHR '','' \<longleftrightarrow> c = CHR '',''"
proof (cases "isupper_char c")
  case True
  then have ge: "65 \<le> (of_char c :: nat)"
    by (auto simp: isupper_char_def Let_def)
  have "lower_char c \<noteq> CHR '',''"
  proof
    assume "lower_char c = CHR '',''"
    then have "(of_char (lower_char c) :: nat) = of_char (CHR '','')" by simp
    with of_char_lower_upper[OF True] have "(of_char c :: nat) + 32 = 44" by simp
    with ge show False by simp
  qed
  moreover have "c \<noteq> CHR '',''"
  proof
    assume "c = CHR '',''"
    then have "(of_char c :: nat) = 44" by simp
    with ge show False by simp
  qed
  ultimately show ?thesis by simp
next
  case False
  then show ?thesis by (simp add: lower_char_def)
qed

lemma isspace_lower_char: "isspace (lower_char c) = isspace c"
proof (cases "isupper_char c")
  case True
  then have r: "(65 \<le> (of_char c :: nat) \<and> (of_char c :: nat) \<le> 90)
             \<or> (192 \<le> (of_char c :: nat) \<and> (of_char c :: nat) \<le> 222)"
    by (auto simp: isupper_char_def Let_def)
  from r have "\<not> isspace c"
    by (auto simp: isspace_def Let_def)
  moreover from r of_char_lower_upper[OF True] have "\<not> isspace (lower_char c)"
    by (auto simp: isspace_def Let_def)
  ultimately show ?thesis by simp
next
  case False
  then show ?thesis by (simp add: lower_char_def)
qed

lemma str_strip_lower: "str_lower (str_strip s) = str_strip (str_lower s)"
proof -
  have d: "\<And>xs. dropWhile isspace (map lower_char xs) = map lower_char (dropWhile isspace xs)"
    by (simp add: dropWhile_map comp_def isspace_lower_char)
  have "str_strip (map lower_char s)
        = rev (dropWhile isspace (map lower_char (rev (dropWhile isspace s))))"
    by (simp only: str_strip_def d rev_map)
  also have "\<dots> = map lower_char (str_strip s)"
    by (simp only: str_strip_def d rev_map)
  finally show ?thesis by (simp add: str_lower_def)
qed

lemma str_split_not_Nil: "str_split sep s \<noteq> []"
  by (induction s) (auto split: list.splits)

lemma str_split_map:
  assumes "\<And>c. f c = sep \<longleftrightarrow> c = sep"
  shows "str_split sep (map f s) = map (map f) (str_split sep s)"
proof (induction s)
  case Nil
  show ?case by simp
next
  case (Cons c s)
  obtain w ws where w: "str_split sep s = w # ws"
    using str_split_not_Nil[of sep s] by (cases "str_split sep s") auto
  with Cons assms[of c] show ?case by auto
qed

lemma str_split_lower:
  "str_split CHR '','' (str_lower s) = map str_lower (str_split CHR '','' s)"
  unfolding str_lower_def by (rule str_split_map) (rule lower_char_comma)

lemma recased_items:
  assumes "str_lower s' = str_lower s"
  shows "map (\<lambda>i. str_lower (str_strip i)) (str_split CHR '','' s')
       = map (\<lambda>i. str_lower (str_strip i)) (str_split CHR '','' s)"
proof -
  have "map (\<lambda>i. str_lower (str_strip i)) (str_split CHR '','' t)
        = map str_strip (str_split CHR '','' (str_lower t))" for t
    by (simp add: str_strip_lower str_split_lower comp_def)
  with assms show ?thesis by simp
qed


text \<open>
  Claim C5.  The cache fingerprint is the MD5 hex digest of the UTF-8 bytes of the text
  \<open>age_range:profession:interests:poi_name:poi_category\<close> normalised as the specification
  says.  Hence two requests have the same fingerprint whenever their ages lie in the same
  5-year bucket, their professions, POI names and POI categories agree up to case, and
  their interests are the same items up to order, case and surrounding blanks (or the
  same text up to case).
\<close>

theorem generate_cache_key_fingerprint:
  "generate_cache_key user poi = md5_hexdigest (encode_utf8 (fingerprint_text user poi))
   \<and> (age_bucket (age user') = age_bucket (age user)
      \<and> str_lower (profession user') = str_lower (profession user)
      \<and> (mset (map (\<lambda>i. str_lower (str_strip i)) (str_split CHR '','' (interests user')))
           = mset (map (\<lambda>i. str_lower (str_strip i)) (str_split CHR '','' (interests user)))
         \<or> str_lower (interests user') = str_lower (interests user))
      \<and> str_lower (poi_name poi') = str_lower (poi_name poi)
      \<and> str_lower (poi_category poi') = str_lower (poi_category poi)
      \<longrightarrow> generate_cache_key user' poi' = generate_cache_key user poi)"
proof (intro conjI impI)
  show "generate_cache_key user poi = md5_hexdigest (encode_utf8 (fingerprint_text user poi))"
    by (rule generate_cache_key_text)
next
  assume a: "age_bucket (age user') = age_bucket (age user)
      \<and> str_lower (profession user') = str_lower (profession user)
      \<and> (mset (map (\<lambda>i. str_lower (str_strip i)) (str_split CHR '','' (interests user')))
           = mset (map (\<lambda>i. str_lower (str_strip i)) (str_split CHR '','' (interests user)))
         \<or> str_lower (interests user') = str_lower (interests user))
      \<and> str_lower (poi_name poi') = str_lower (poi_name poi)
      \<and> str_lower (poi_category poi') = str_lower (poi_category poi)"
  then have "mset (map (\<lambda>i. str_lower (str_strip i)) (str_split CHR '','' (interests user')))
           = mset (map (\<lambda>i. str_lower (str_strip i)) (str_split CHR '','' (interests user)))"
  proof (elim conjE disjE)
    assume "str_lower (interests user') = str_lower (interests user)"
    from recased_items[OF this] show ?thesis by (rule arg_cong)
  qed
  then have "normalize_interests (interests user') = normalize_interests (interests user)"
    by (rule normalize_interests_cong)
  with a have "fingerprint_text user' poi' = fingerprint_text user poi"
    by (simp add: fingerprint_text_def)
  then show "generate_cache_key user' poi' = generate_cache_key user poi"
    by (simp add: generate_cache_key_text)
qed

lemma S1_text:
  "fingerprint_text \<lparr>age = 30, profession = ''Ingegnere'', interests = ''tecnologia, cucina''\<rparr>
     \<lparr>poi_name = ''Caff'' @ [CHR 0xE8] @ '' X'', poi_category = ''bar'', poi_description = []\<rparr>
   = ''30-34:ingegnere:cucina,tecnologia:caff'' @ [CHR 0xE8] @ '' x:bar''"
  by code_simp

lemma S1_digest:
  "md5_hexdigest (encode_utf8 (''30-34:ingegnere:cucina,tecnologia:caff'' @ [CHR 0xE8] @ '' x:bar''))
   = ''9322095e2cceea6083d934fb4181c290''"
  by code_simp

lemma S3_items:
  "map (\<lambda>i. str_lower (str_strip i)) (str_split CHR '','' ''Cucina,Tecnologia'') = [''cucina'', ''tecnologia'']"
  "map (\<lambda>i. str_lower (str_strip i)) (str_split CHR '','' ''tecnologia, cucina'') = [''tecnologia'', ''cucina'']"
  by code_simp+

lemma S3_bucket: "age_bucket 31 = age_bucket 30"
  by (simp add: age_bucket_div)

theorem generate_cache_key_fingerprint_witness:
  "generate_cache_key \<lparr>age = 31, profession = ''Ingegnere'', interests = ''Cucina,Tecnologia''\<rparr>
     \<lparr>poi_name = ''Caff'' @ [CHR 0xE8] @ '' X'', poi_category = ''bar'',
      poi_description = ''Negozio a 12m di distanza''\<rparr>
   = generate_cache_key \<lparr>age = 30, profession = ''Ingegnere'', interests = ''tecnologia, cucina''\<rparr>
     \<lparr>poi_name = ''Caff'' @ [CHR 0xE8] @ '' X'', poi_category = ''bar'', poi_description = []\<rparr>
   \<and> generate_cache_key \<lparr>age = 30, profession = ''Ingegnere'', interests = ''tecnologia, cucina''\<rparr>
     \<lparr>poi_name = ''Caff'' @ [CHR 0xE8] @ '' X'', poi_category = ''bar'', poi_description = []\<rparr>
   = ''9322095e2cceea6083d934fb4181c290''"
proof -
  let ?u = "\<lparr>age = 30, profession = ''Ingegnere'', interests = ''tecnologia, cucina''\<rparr>"
  let ?p = "\<lparr>poi_name = ''Caff'' @ [CHR 0xE8] @ '' X'', poi_category = ''bar'', poi_description = []\<rparr>"
  let ?u' = "\<lparr>age = 31, profession = ''Ingegnere'', interests = ''Cucina,Tecnologia''\<rparr>"
  let ?p' = "\<lparr>poi_name = ''Caff'' @ [CHR 0xE8] @ '' X'', poi_category = ''bar'',
              poi_description = ''Negozio a 12m di distanza''\<rparr>"
  have items: "mset (map (\<lambda>i. str_lower (str_strip i)) (str_split CHR '','' ''Cucina,Tecnologia''))
             = mset (map (\<lambda>i. str_lower (str_strip i)) (str_split CHR '','' ''tecnologia, cucina''))"
    by (simp only: S3_items) (simp add: add_mset_commute)
  have hyp: "age_bucket (age ?u') = age_bucket (age ?u)
      \<and> str_lower (profession ?u') = str_lower (profession ?u)
      \<and> (mset (map (\<lambda>i. str_lower (str_strip i)) (str_split CHR '','' (interests ?u')))
           = mset (map (\<lambda>i. str_lower (str_strip i)) (str_split CHR '','' (interests ?u)))
         \<or> str_lower (interests ?u') = str_lower (interests ?u))
      \<and> str_lower (poi_name ?p') = str_lower (poi_name ?p)
      \<and> str_lower (poi_category ?p') = str_lower (poi_category ?p)"
    by (simp only: user_params.select_convs poi_params.select_convs S3_bucket items) simp
  note inst = generate_cache_key_fingerprint[of ?u ?p ?u' ?p']
  from inst[THEN conjunct2, THEN mp, OF hyp]
  have "generate_cache_key ?u' ?p' = generate_cache_key ?u ?p" .
  moreover from inst[THEN conjunct1]
  have "generate_cache_key ?u ?p = ''9322095e2cceea6083d934fb4181c290''"
    by (simp only: S1_text S1_digest)
  ultimately show ?thesis by (rule conjI)
qed

section \<open>Stream or batch\<close>

lemma range_hours_le:
  "real_of_int d / 1000000 / 3600 \<le> 24 \<longleftrightarrow> d \<le> 24 * 3600000000"
proof -
  have "real_of_int d / 1000000 / 3600 \<le> 24 \<longleftrightarrow> real_of_int d \<le> real_of_int (24 * 3600000000)"
    by (simp add: field_simps)
  also have "\<dots> \<longleftrightarrow> d \<le> 24 * 3600000000"
    by (simp only: of_int_le_iff)
  finally show ?thesis .
qed

lemma div_le_7_iff:
  fixes d c :: int
  assumes "0 < c"
  shows "d div c \<le> 7 \<longleftrightarrow> d < 8 * c"
proof -
  define q where "q = (d + c * (- 8)) div c"
  from assms have 1: "q = - 8 + d div c"
    unfolding q_def by (subst div_mult_self2) simp_all
  from assms have 2: "(q < 0) = (d + c * (- 8) < 0)"
    unfolding q_def by (rule pos_imp_zdiv_neg_iff)
  from 1 have "d div c \<le> 7 \<longleftrightarrow> q < 0" by linarith
  also have "\<dots> \<longleftrightarrow> d + c * (- 8) < 0" by (rule 2)
  also have "\<dots> \<longleftrightarrow> d < 8 * c" by linarith
  finally show ?thesis .
qed

lemma days_ago_le: "(d :: int) div 86400000000 \<le> 7 \<longleftrightarrow> d < 8 * 86400000000"
  by (rule div_le_7_iff) simp

lemma should_use_stream_eq:
  "should_use_stream now start_time end_time granularity
   \<longleftrightarrow> (now - start_time < 8 * 86400000000 \<and> (granularity = ''minute'' \<or> granularity = ''hour''))
       \<or> end_time - start_time \<le> 24 * 3600000000"
  unfolding should_use_stream_def Let_def range_hours_le days_ago_le by auto

lemma should_use_stream_agrees:
  assumes "now - start_time \<le> 7 * 86400000000 \<or> 8 * 86400000000 \<le> now - start_time"
  shows "should_use_stream now start_time end_time granularity
           = routes_to_stream now start_time end_time granularity"
  using assms unfolding should_use_stream_eq routes_to_stream_def by auto

text \<open>
  Claim C3.  The claim routes a query to the batch source when its start is more than 7
  days back and its range exceeds 24 hours.  \<open>should_use_stream\<close> compares the whole days
  of \<open>now - start_time\<close> with 7, so a start up to (but excluding) 8 days back still counts
  as recent: ten days after the origin, a query of granularity hour that starts seven and
  a half days back and ends now goes to the stream source, where the rule of the
  specification gives batch.  (Outside the eighth day the two agree, by
  \<open>should_use_stream_agrees\<close>.)
\<close>

theorem should_use_stream_eighth_day:
  "should_use_stream 864000000000 216000000000 864000000000 ''hour'' = True
   \<and> routes_to_stream 864000000000 216000000000 864000000000 ''hour'' = False"
  unfolding should_use_stream_eq routes_to_stream_def by simp

section \<open>The cached flag of the query service\<close>

lemma datapoint_of_dict: "datapoint_of (datapoint_dict dp) = Inr dp"
  by (cases "dp_metadata dp")
     (simp_all add: datapoint_of_def datapoint_dict_def float_of_def metadata_of_def)

lemma datapoints_of_dicts: "datapoints_of (map datapoint_dict dps) = Inr dps"
  by (induction dps) (simp_all add: datapoint_of_dict)

lemma response_of_dict: "response_of (response_dict r) = Inr r"
  by (simp add: response_of_def response_dict_def datapoints_of_dicts)

lemma truthy_response_dict: "truthy (response_dict r)"
  by (simp add: response_dict_def)

text \<open>
  Claim C2.  With the in-process cache behind the query service, a first \<open>POST
  /timeseries\<close> stores its response, and the same query ten seconds later is answered from
  the cache without the engine being asked (whatever \<open>engine'\<close> would do): the response
  returned on that hit is the stored one, and its \<open>cached\<close> field is \<open>False\<close>, where the
  claim promises \<open>true\<close>.
\<close>

theorem query_timeseries_hit_not_marked:
  "(case query_timeseries J (\<lambda>q. Inr s) (\<lambda>b q. Inr result) now_dt now query
          \<lparr>qcm_cache = Some (MemoryBackend \<lparr>mem_cache = Map.empty, mem_default_ttl = Some 86400\<rparr>)\<rparr> of
      (Inr r1, m1) \<Rightarrow>
        (case query_timeseries J (\<lambda>q. Inr s) engine' now_dt' (now + 10) query m1 of
           (Inr r2, m2) \<Rightarrow> r2 = r1 \<and> resp_cached r2 = False
         | (Inl e, m2) \<Rightarrow> False)
    | (Inl e, m1) \<Rightarrow> False)"
  by (simp add: query_timeseries_def qcm_get_def qcm_set_def cache_get_def cache_set_def
      memory_get_def memory_set_def try_except_def expired_def Let_def
      response_of_dict truthy_response_dict)

section \<open>The fallback message and the cache\<close>

lemma get_fallback_message_not_empty: "get_fallback_message shop_name category \<noteq> []"
  by (simp add: get_fallback_message_def)

text \<open>
  Claim C1.  With the in-process cache enabled and empty, a \<open>/generate\<close> request whose LLM
  call raises returns the fallback message of the category with \<open>cached = False\<close>, and
  \<open>generate_message\<close> stores that fallback under the fingerprint: the next lookup of the
  same fingerprint returns it and counts as a hit, where the claim promises a miss.
\<close>

theorem generate_message_caches_fallback:
  "(case generate_message J now (Inl e) user poi
           (cache_utils_init True 86400
              (Some (MemoryBackend \<lparr>mem_cache = Map.empty, mem_default_ttl = Some 86400\<rparr>))) of
      Inr ((msg, cached), st1) \<Rightarrow>
        msg = PStr (get_fallback_message (poi_name poi) (poi_category poi)) \<and> \<not> cached
        \<and> (case get_cached_message J (now + 10) user poi st1 of
              Inr (r, st2) \<Rightarrow>
                r = PStr (get_fallback_message (poi_name poi) (poi_category poi))
                \<and> hits (cache_stats st2) = 1
            | Inl e' \<Rightarrow> False)
    | Inl e' \<Rightarrow> False)"
  by (simp add: generate_message_def get_cached_message_def cache_message_def call_llm_def
      cache_utils_init_def cache_get_def cache_set_def memory_get_def memory_set_def
      expired_def Let_def get_fallback_message_not_empty)

section \<open>The proximity gate\<close>


lemma generated_append:
  "generated (conn\<lparr>io_log := io_log conn @ [x]\<rparr>)
   = generated conn @ (case returned_message x of None \<Rightarrow> [] | Some m \<Rightarrow> [m])"
  by (simp add: generated_def List.map_filter_def split: option.splits)













section \<open>The remote cache round trip\<close>



















end
